theory Spec2Isabelle
  imports Complex_Main
begin

section \<open>The matching engine of founder-matchmaker\<close>

text \<open>
  The development embeds four request handlers of the Next.js application and the scoring
  function they use:
  \<^item> \<open>POST /api/like\<close> (third module of \<^verbatim>\<open>src/app/api/profile/route.ts\<close>, lines 353-437),
  \<^item> \<open>GET\<close> and \<open>POST /api/matches/[matchId]/messages\<close>,
  \<^item> \<open>GET /api/recommendations\<close> with \<open>calculateMatchScore\<close> (\<^verbatim>\<open>src/unnamed/part_001\<close>).

  The relational store is a record of tables, every table a list of rows in insertion
  order. A Prisma call is a function on that record; a call that throws returns \<open>Inl\<close>.
  A handler takes the store, the authenticated user (\<open>None\<close> when
  \<open>supabase.auth.getUser\<close> yields none) and the parsed request, and returns the HTTP
  response with the store as it is when the handler returns. There is no transaction in
  the handlers, so a row written before a later call throws stays written.
\<close>

subsection \<open>Tables\<close>

type_synonym uid = string
type_synonym rid = nat

text \<open>
  A user row carries the columns that the handlers read, together with the related rows
  that the queries \<open>include\<close>: the tags of the user's offers and lookingFor rows and the
  names of the user's skills (\<open>UserWithRelations\<close> after \<open>.map(o => o.tag)\<close> and
  \<open>.map(s => s.skill.name)\<close>). Nullable columns are options.
\<close>

record user_row =
  userId :: uid
  headline :: "string option"
  bio :: "string option"
  location :: "string option"
  availability :: "int option"
  offers :: "string list"
  lookingFor :: "string list"
  skills :: "string list"

text \<open>
  The likes table of the migration (lines 83-90) has the columns \<open>id\<close>, \<open>fromId\<close>,
  \<open>toId\<close> and \<open>createdAt\<close>: a like has no message column.
\<close>

record like_row =
  like_id :: rid
  fromId :: uid
  toId :: uid

record match_row =
  match_id :: rid
  userAId :: uid
  userBId :: uid
  active :: bool

record message_row =
  message_id :: rid
  matchId :: rid
  senderId :: uid
  body :: string
  createdAt :: nat

text \<open>
  Row identifiers are generated by Prisma; here they are drawn from the counter
  \<open>nextId\<close>. \<open>clock\<close> is the database's \<open>CURRENT_TIMESTAMP\<close>. \<open>realtime\<close> logs the
  payloads broadcast on the per-match channels.
\<close>

record db =
  users :: "user_row list"
  likes :: "like_row list"
  matches :: "match_row list"
  messages :: "message_row list"
  nextId :: rid
  clock :: nat
  realtime :: "message_row list"

datatype prisma_error = ValidationError | UniqueConstraintViolation | ForeignKeyViolation

datatype 'a response = Json 'a | Error nat string

subsection \<open>Prisma calls\<close>

definition user_findUnique :: "db \<Rightarrow> uid \<Rightarrow> user_row option" where
  "user_findUnique d i = find (\<lambda>u. userId u = i) (users d)"

definition like_findUnique :: "db \<Rightarrow> uid \<Rightarrow> uid \<Rightarrow> like_row option" where
  "like_findUnique d f t = find (\<lambda>l. fromId l = f \<and> toId l = t) (likes d)"

text \<open>
  \<open>like.create\<close>: the unique index \<open>likes_fromId_toId_key\<close> and the foreign keys
  \<open>likes_fromId_fkey\<close>, \<open>likes_toId_fkey\<close> of the migration reject the insert.
  The handler passes \<open>message\<close> in the data of the call. The Prisma schema is not among
  the sources, and the store is modelled after the migration, whose likes table has no
  such column: a call whose data carries a message throws and stores nothing; a call
  whose \<open>message\<close> is \<open>undefined\<close> (\<open>None\<close>) inserts the row.
\<close>

definition like_create ::
  "db \<Rightarrow> uid \<Rightarrow> uid \<Rightarrow> string option \<Rightarrow> prisma_error + (like_row \<times> db)" where
  "like_create d f t msg =
     (if msg \<noteq> None then Inl ValidationError
      else if like_findUnique d f t \<noteq> None then Inl UniqueConstraintViolation
      else if user_findUnique d f = None \<or> user_findUnique d t = None
        then Inl ForeignKeyViolation
      else
        let l = \<lparr>like_id = nextId d, fromId = f, toId = t\<rparr>
        in Inr (l, d\<lparr>likes := likes d @ [l], nextId := Suc (nextId d)\<rparr>))"

text \<open>
  \<open>match.create\<close>: the unique index \<open>matches_userAId_userBId_key\<close> is on the ordered
  pair of columns; \<open>active\<close> defaults to true.
\<close>

definition match_create :: "db \<Rightarrow> uid \<Rightarrow> uid \<Rightarrow> prisma_error + (match_row \<times> db)" where
  "match_create d a b =
     (if find (\<lambda>m. userAId m = a \<and> userBId m = b) (matches d) \<noteq> None
        then Inl UniqueConstraintViolation
      else if user_findUnique d a = None \<or> user_findUnique d b = None
        then Inl ForeignKeyViolation
      else
        let m = \<lparr>match_id = nextId d, userAId = a, userBId = b, active = True\<rparr>
        in Inr (m, d\<lparr>matches := matches d @ [m], nextId := Suc (nextId d)\<rparr>))"

text \<open>The \<open>findFirst\<close> of both message handlers: id, participant in either column, active.\<close>

definition match_findFirst :: "db \<Rightarrow> rid \<Rightarrow> uid \<Rightarrow> match_row option" where
  "match_findFirst d i u =
     find (\<lambda>m. match_id m = i \<and> (userAId m = u \<or> userBId m = u) \<and> active m) (matches d)"

definition message_findMany :: "db \<Rightarrow> rid \<Rightarrow> message_row list" where
  "message_findMany d i = sort_key createdAt (filter (\<lambda>m. matchId m = i) (messages d))"

definition message_create ::
  "db \<Rightarrow> rid \<Rightarrow> uid \<Rightarrow> string \<Rightarrow> prisma_error + (message_row \<times> db)" where
  "message_create d i u b =
     (if find (\<lambda>m. match_id m = i) (matches d) = None \<or> user_findUnique d u = None
        then Inl ForeignKeyViolation
      else
        let m = \<lparr>message_id = nextId d, matchId = i, senderId = u, body = b,
                 createdAt = clock d\<rparr>
        in Inr (m, d\<lparr>messages := messages d @ [m], nextId := Suc (nextId d)\<rparr>))"

subsection \<open>POST /api/like\<close>

record like_json =
  r_like :: like_row
  r_match :: "match_row option"
  isMatch :: bool
  r_message :: string

definition internal_error :: "'a response" where
  "internal_error = Error 500 ''Internal server error''"

text \<open>
  \<open>parsed\<close> is the outcome of \<open>likeSchema.parse(await request.json())\<close>: \<open>None\<close> when it
  throws (no JSON, or \<open>toUserId\<close> is not a UUID), otherwise \<open>toUserId\<close> and the optional
  \<open>message\<close>. Every exception ends in the handler's \<open>catch\<close>, which answers 500.
  The \<open>message\<close> text of the response is kept without its trailing emoji.
\<close>

definition POST_like ::
  "db \<Rightarrow> uid option \<Rightarrow> (uid \<times> string option) option \<Rightarrow> like_json response \<times> db" where
  "POST_like d auth parsed =
     (case auth of
        None \<Rightarrow> (Error 401 ''Unauthorized'', d)
      | Some user \<Rightarrow>
          (case parsed of
             None \<Rightarrow> (internal_error, d)
           | Some (toUserId, msg) \<Rightarrow>
               if user = toUserId then (Error 400 ''Cannot like yourself'', d)
               else (case user_findUnique d toUserId of
                 None \<Rightarrow> (Error 404 ''User not found'', d)
               | Some targetUser \<Rightarrow>
                   (case like_findUnique d user toUserId of
                      Some existingLike \<Rightarrow> (Error 400 ''Already liked this user'', d)
                    | None \<Rightarrow>
                        (case like_create d user toUserId msg of
                           Inl e \<Rightarrow> (internal_error, d)
                         | Inr (like, d1) \<Rightarrow>
                             (case like_findUnique d1 toUserId user of
                                Some mutualLike \<Rightarrow>
                                  (case match_create d1 user toUserId of
                                     Inl e \<Rightarrow> (internal_error, d1)
                                   | Inr (match, d2) \<Rightarrow>
                                       (Json \<lparr>r_like = like, r_match = Some match,
                                              isMatch = True,
                                              r_message = ''It's a match!''\<rparr>, d2))
                              | None \<Rightarrow>
                                  (Json \<lparr>r_like = like, r_match = None, isMatch = False,
                                         r_message =
                                           ''Like sent! You'll be notified if they like you back.''\<rparr>,
                                   d1)))))))"

subsection \<open>POST /api/like as two database round trips\<close>

text \<open>
  Every \<open>await\<close> of the handler is a point where another request can run. The handler is
  cut once, between \<open>prisma.like.create\<close> (line 393) and the lookup of the mutual like
  (line 402): \<open>POST_like_create\<close> is lines 355-399 and returns the response of an early
  return or the created like; \<open>POST_like_match\<close> is lines 401-432.
\<close>

definition POST_like_create ::
  "db \<Rightarrow> uid option \<Rightarrow> (uid \<times> string option) option
     \<Rightarrow> (like_json response + like_row) \<times> db" where
  "POST_like_create d auth parsed =
     (case auth of
        None \<Rightarrow> (Inl (Error 401 ''Unauthorized''), d)
      | Some user \<Rightarrow>
          (case parsed of
             None \<Rightarrow> (Inl internal_error, d)
           | Some (toUserId, msg) \<Rightarrow>
               if user = toUserId then (Inl (Error 400 ''Cannot like yourself''), d)
               else (case user_findUnique d toUserId of
                 None \<Rightarrow> (Inl (Error 404 ''User not found''), d)
               | Some targetUser \<Rightarrow>
                   (case like_findUnique d user toUserId of
                      Some existingLike \<Rightarrow> (Inl (Error 400 ''Already liked this user''), d)
                    | None \<Rightarrow>
                        (case like_create d user toUserId msg of
                           Inl e \<Rightarrow> (Inl internal_error, d)
                         | Inr (like, d1) \<Rightarrow> (Inr like, d1))))))"

definition POST_like_match ::
  "db \<Rightarrow> uid \<Rightarrow> uid \<Rightarrow> like_row \<Rightarrow> like_json response \<times> db" where
  "POST_like_match d user toUserId like =
     (case like_findUnique d toUserId user of
        Some mutualLike \<Rightarrow>
          (case match_create d user toUserId of
             Inl e \<Rightarrow> (internal_error, d)
           | Inr (match, d2) \<Rightarrow>
               (Json \<lparr>r_like = like, r_match = Some match, isMatch = True,
                      r_message = ''It's a match!''\<rparr>, d2))
      | None \<Rightarrow>
          (Json \<lparr>r_like = like, r_match = None, isMatch = False,
                 r_message = ''Like sent! You'll be notified if they like you back.''\<rparr>, d))"

subsection \<open>GET and POST /api/matches/[matchId]/messages\<close>

definition GET_messages :: "db \<Rightarrow> uid option \<Rightarrow> rid \<Rightarrow> message_row list response" where
  "GET_messages d auth i =
     (case auth of
        None \<Rightarrow> Error 401 ''Unauthorized''
      | Some user \<Rightarrow>
          (case match_findFirst d i user of
             None \<Rightarrow> Error 404 ''Match not found''
           | Some match \<Rightarrow> Json (message_findMany d i)))"

text \<open>\<open>messageSchema\<close>: \<open>z.string().min(1).max(1000)\<close>; \<open>parse\<close> throws otherwise.\<close>

definition messageSchema :: "string \<Rightarrow> bool" where
  "messageSchema b = (1 \<le> length b \<and> length b \<le> 1000)"

definition POST_messages ::
  "db \<Rightarrow> uid option \<Rightarrow> rid \<Rightarrow> string \<Rightarrow> message_row response \<times> db" where
  "POST_messages d auth i b =
     (case auth of
        None \<Rightarrow> (Error 401 ''Unauthorized'', d)
      | Some user \<Rightarrow>
          if \<not> messageSchema b then (internal_error, d)
          else (case match_findFirst d i user of
            None \<Rightarrow> (Error 404 ''Match not found'', d)
          | Some match \<Rightarrow>
              (case message_create d i user b of
                 Inl e \<Rightarrow> (internal_error, d)
               | Inr (m, d1) \<Rightarrow> (Json m, d1\<lparr>realtime := realtime d1 @ [m]\<rparr>))))"

subsection \<open>calculateMatchScore\<close>

text \<open>
  JavaScript numbers are modelled as rationals. \<open>availability\<close> is an INTEGER column, so
  the numbers that occur are integers, tenths of integers and sixths of integers.
  \<open>Math.round\<close> rounds to the nearest integer, a half upwards.
\<close>

definition Math_round :: "rat \<Rightarrow> int" where
  "Math_round x = \<lfloor>x + 1 / 2\<rfloor>"

text \<open>Truthiness of a nullable string (\<open>null\<close> and \<open>''\<close> are falsy) and of a nullable number
  (\<open>null\<close> and \<open>0\<close> are falsy).\<close>

definition truthy :: "string option \<Rightarrow> bool" where
  "truthy s = (case s of None \<Rightarrow> False | Some v \<Rightarrow> v \<noteq> [])"

definition truthy_number :: "int option \<Rightarrow> bool" where
  "truthy_number n = (case n of None \<Rightarrow> False | Some v \<Rightarrow> v \<noteq> 0)"

text \<open>The decimal numeral that a template literal prints for a count.\<close>

definition digit :: "nat \<Rightarrow> char" where
  "digit n = ''0123456789'' ! n"

fun String_of :: "nat \<Rightarrow> string" where
  "String_of n = (if n < 10 then [digit n] else String_of (n div 10) @ [digit (n mod 10)])"

declare String_of.simps [simp del]

record match_score =
  score :: int
  reasons :: "string list"

text \<open>
  The function as it is written: \<open>score\<close> and \<open>reasons\<close> are updated in the order of the
  source, every \<open>const\<close> is a \<open>let\<close>.
\<close>

definition calculateMatchScore :: "user_row \<Rightarrow> user_row \<Rightarrow> match_score" where
  "calculateMatchScore user1 user2 =
     (let score = (0 :: rat);
          reasons = ([] :: string list);
          user1Offers = offers user1;
          user1LookingFor = lookingFor user1;
          user2Offers = offers user2;
          user2LookingFor = lookingFor user2;
          offerOverlap = length (filter (\<lambda>offer. offer \<in> set user2LookingFor) user1Offers);
          lookingForOverlap = length (filter (\<lambda>l. l \<in> set user2Offers) user1LookingFor);
          tagScore = min 40 (of_nat ((offerOverlap + lookingForOverlap) * 8));
          score = score + tagScore;
          reasons = (if offerOverlap > 0
                     then reasons @ [String_of offerOverlap @ '' matching skills/offers'']
                     else reasons);
          user1Skills = skills user1;
          user2Skills = skills user2;
          skillOverlap = length (filter (\<lambda>skill. skill \<in> set user2Skills) user1Skills);
          skillScore = min 20 (of_nat (skillOverlap * 4));
          score = score + skillScore;
          reasons = (if skillOverlap > 0
                     then reasons @ [String_of skillOverlap @ '' shared skills'']
                     else reasons);
          (score, reasons) =
            (if truthy (location user1) \<and> truthy (location user2) then
               let locationScore = (if location user1 = location user2 then 10 else 5 :: rat)
               in (score + locationScore,
                   if locationScore = 10 then reasons @ [''Same location''] else reasons)
             else (score, reasons));
          (score, reasons) =
            (if truthy_number (availability user1) \<and> truthy_number (availability user2) then
               let availabilityDiff = \<bar>the (availability user1) - the (availability user2)\<bar>;
                   availabilityScore = max 0 (10 - of_int availabilityDiff / 10)
               in (score + availabilityScore,
                   if availabilityScore > 7 then reasons @ [''Similar availability'']
                   else reasons)
             else (score, reasons));
          user2Completeness =
            length (filter (\<lambda>b. b)
              [truthy (bio user2), truthy (headline user2), truthy (location user2),
               length (skills user2) > 0, length (offers user2) > 0,
               length (lookingFor user2) > 0]);
          completenessScore = (of_nat user2Completeness / 6) * 5;
          score = score + completenessScore;
          reasons = (if completenessScore > 4 then reasons @ [''Complete profile'']
                     else reasons)
      in \<lparr>score = Math_round score, reasons = take 3 reasons\<rparr>)"

subsection \<open>The terms of the score\<close>

text \<open>The values of the local constants of \<open>calculateMatchScore\<close>, as functions of the two
  profiles. A term whose block is skipped contributes 0.\<close>

definition offerOverlap :: "user_row \<Rightarrow> user_row \<Rightarrow> nat" where
  "offerOverlap user1 user2 =
     length (filter (\<lambda>offer. offer \<in> set (lookingFor user2)) (offers user1))"

definition lookingForOverlap :: "user_row \<Rightarrow> user_row \<Rightarrow> nat" where
  "lookingForOverlap user1 user2 =
     length (filter (\<lambda>l. l \<in> set (offers user2)) (lookingFor user1))"

definition tagScore :: "user_row \<Rightarrow> user_row \<Rightarrow> rat" where
  "tagScore user1 user2 =
     min 40 (of_nat ((offerOverlap user1 user2 + lookingForOverlap user1 user2) * 8))"

definition skillOverlap :: "user_row \<Rightarrow> user_row \<Rightarrow> nat" where
  "skillOverlap user1 user2 =
     length (filter (\<lambda>skill. skill \<in> set (skills user2)) (skills user1))"

definition skillScore :: "user_row \<Rightarrow> user_row \<Rightarrow> rat" where
  "skillScore user1 user2 = min 20 (of_nat (skillOverlap user1 user2 * 4))"

definition locationScore :: "user_row \<Rightarrow> user_row \<Rightarrow> rat" where
  "locationScore user1 user2 =
     (if truthy (location user1) \<and> truthy (location user2)
      then (if location user1 = location user2 then 10 else 5) else 0)"

definition availabilityScore :: "user_row \<Rightarrow> user_row \<Rightarrow> rat" where
  "availabilityScore user1 user2 =
     (if truthy_number (availability user1) \<and> truthy_number (availability user2)
      then max 0 (10 - of_int \<bar>the (availability user1) - the (availability user2)\<bar> / 10)
      else 0)"

definition user2Completeness :: "user_row \<Rightarrow> nat" where
  "user2Completeness user2 =
     length (filter (\<lambda>b. b)
       [truthy (bio user2), truthy (headline user2), truthy (location user2),
        length (skills user2) > 0, length (offers user2) > 0, length (lookingFor user2) > 0])"

definition completenessScore :: "user_row \<Rightarrow> rat" where
  "completenessScore user2 = (of_nat (user2Completeness user2) / 6) * 5"

text \<open>
  The availability term in the words of the specification:
  \<open>max(0, 10 - |viewerAvailability - candidateAvailability| / 10)\<close>, computed when both
  values are present, 0 when either is absent.
\<close>

definition spec_availabilityTerm :: "int option \<Rightarrow> int option \<Rightarrow> rat" where
  "spec_availabilityTerm viewerAvailability candidateAvailability =
     (case (viewerAvailability, candidateAvailability) of
        (Some v, Some c) \<Rightarrow> max 0 (10 - of_int \<bar>v - c\<bar> / 10)
      | _ \<Rightarrow> 0)"

subsection \<open>GET /api/recommendations\<close>

record recommendation =
  candidate :: user_row
  matchScore :: int
  matchReasons :: "string list"

text \<open>\<open>Array.prototype.sort\<close> is stable; the comparator \<open>b.matchScore - a.matchScore\<close>
  orders by descending score.\<close>

definition GET_recommendations :: "db \<Rightarrow> uid option \<Rightarrow> recommendation list response" where
  "GET_recommendations d auth =
     (case auth of
        None \<Rightarrow> Error 401 ''Unauthorized''
      | Some user \<Rightarrow>
          (case user_findUnique d user of
             None \<Rightarrow> Error 404 ''Profile not found''
           | Some currentUser \<Rightarrow>
               let likesSent = filter (\<lambda>like. fromId like = user) (likes d);
                   likedUserIds = map toId likesSent;
                   recommendations =
                     take 20 (filter (\<lambda>u. userId u \<noteq> user \<and> userId u \<notin> set likedUserIds)
                                (users d));
                   scoredRecommendations =
                     map (\<lambda>recommendation.
                            let score = calculateMatchScore currentUser recommendation
                            in \<lparr>candidate = recommendation, matchScore = match_score.score score,
                                matchReasons = match_score.reasons score\<rparr>)
                       recommendations
               in Json (sort_key (\<lambda>r. - matchScore r) scoredRecommendations)))"

section \<open>Predicates and example data\<close>

subsection \<open>Predicates of the claims\<close>

text \<open>
  \<open>canAccess\<close> is the gate in the words of the specification: an active match with that
  id has the user as one of its two participants. \<open>matches_fk\<close>, \<open>likes_unique\<close> and
  \<open>matches_unique\<close> say that a store respects the foreign keys \<open>matches_userAId_fkey\<close>
  and \<open>matches_userBId_fkey\<close> and the unique indexes \<open>likes_fromId_toId_key\<close> and
  \<open>matches_userAId_userBId_key\<close> of the migration. \<open>pair_match a b\<close> holds of a match
  row of the unordered pair, \<open>stored_as d a b\<close> when a row with exactly this order is
  stored. \<open>edges\<close> are the stored interests from one user to another. \<open>new_like\<close>,
  \<open>new_match\<close>, \<open>with_like\<close> and \<open>with_match\<close> name the row that a create call builds
  and the store after it; \<open>like_sent\<close> and \<open>its_a_match\<close> are the two success bodies of
  the like handler.
\<close>

definition canAccess :: "db \<Rightarrow> uid \<Rightarrow> rid \<Rightarrow> bool" where
  "canAccess d u i =
     (\<exists>m \<in> set (matches d). match_id m = i \<and> active m \<and> (userAId m = u \<or> userBId m = u))"

definition matches_fk :: "db \<Rightarrow> bool" where
  "matches_fk d =
     (\<forall>m \<in> set (matches d).
        user_findUnique d (userAId m) \<noteq> None \<and> user_findUnique d (userBId m) \<noteq> None)"

definition pair_match :: "uid \<Rightarrow> uid \<Rightarrow> match_row \<Rightarrow> bool" where
  "pair_match a b m =
     ((userAId m = a \<and> userBId m = b) \<or> (userAId m = b \<and> userBId m = a))"

definition active_matches :: "db \<Rightarrow> uid \<Rightarrow> uid \<Rightarrow> match_row list" where
  "active_matches d a b = filter (\<lambda>m. active m \<and> pair_match a b m) (matches d)"

definition stored_as :: "db \<Rightarrow> uid \<Rightarrow> uid \<Rightarrow> bool" where
  "stored_as d a b = (\<exists>m \<in> set (matches d). userAId m = a \<and> userBId m = b)"

definition edges :: "db \<Rightarrow> uid \<Rightarrow> uid \<Rightarrow> like_row list" where
  "edges d a b = filter (\<lambda>l. fromId l = a \<and> toId l = b) (likes d)"

definition likes_unique :: "db \<Rightarrow> bool" where
  "likes_unique d = distinct (map (\<lambda>l. (fromId l, toId l)) (likes d))"

definition matches_unique :: "db \<Rightarrow> bool" where
  "matches_unique d = distinct (map (\<lambda>m. (userAId m, userBId m)) (matches d))"

definition new_like :: "db \<Rightarrow> uid \<Rightarrow> uid \<Rightarrow> like_row" where
  "new_like d f t = \<lparr>like_id = nextId d, fromId = f, toId = t\<rparr>"

definition with_like :: "db \<Rightarrow> like_row \<Rightarrow> db" where
  "with_like d l = d\<lparr>likes := likes d @ [l], nextId := Suc (nextId d)\<rparr>"

definition with_match :: "db \<Rightarrow> match_row \<Rightarrow> db" where
  "with_match d m = d\<lparr>matches := matches d @ [m], nextId := Suc (nextId d)\<rparr>"

definition new_match :: "db \<Rightarrow> uid \<Rightarrow> uid \<Rightarrow> match_row" where
  "new_match d a b = \<lparr>match_id = nextId d, userAId = a, userBId = b, active = True\<rparr>"

definition like_sent :: "like_row \<Rightarrow> like_json" where
  "like_sent l = \<lparr>r_like = l, r_match = None, isMatch = False,
     r_message = ''Like sent! You'll be notified if they like you back.''\<rparr>"

definition its_a_match :: "like_row \<Rightarrow> match_row \<Rightarrow> like_json" where
  "its_a_match l m = \<lparr>r_like = l, r_match = Some m, isMatch = True,
     r_message = ''It's a match!''\<rparr>"

subsection \<open>Example stores\<close>

definition alice :: uid where "alice = ''11111111-1111-4111-8111-111111111111''"
definition bob :: uid where "bob = ''22222222-2222-4222-8222-222222222222''"
definition carol :: uid where "carol = ''33333333-3333-4333-8333-333333333333''"

definition profile :: "uid \<Rightarrow> user_row" where
  "profile i = \<lparr>userId = i, headline = None, bio = None, location = None,
     availability = None, offers = [], lookingFor = [], skills = []\<rparr>"

definition fresh_db :: db where
  "fresh_db = \<lparr>users = [profile alice, profile bob, profile carol], likes = [],
     matches = [], messages = [], nextId = 0, clock = 0, realtime = []\<rparr>"

text \<open>Bob has liked Alice, and a match of the two is stored with Bob in the first column.\<close>

definition reversed_db :: db where
  "reversed_db = fresh_db\<lparr>
     likes := [\<lparr>like_id = 0, fromId = bob, toId = alice\<rparr>],
     matches := [\<lparr>match_id = 1, userAId = bob, userBId = alice, active = True\<rparr>],
     nextId := 2\<rparr>"

text \<open>Alice and Bob are matched; Carol is a third user.\<close>

definition matched_db :: db where
  "matched_db = fresh_db\<lparr>
     likes := [\<lparr>like_id = 0, fromId = alice, toId = bob\<rparr>,
               \<lparr>like_id = 1, fromId = bob, toId = alice\<rparr>],
     matches := [\<lparr>match_id = 2, userAId = bob, userBId = alice, active = True\<rparr>],
     nextId := 3\<rparr>"

text \<open>The race: both requests have written their like before either looks for the other's.\<close>

definition race_like1 :: like_row where
  "race_like1 = \<lparr>like_id = 0, fromId = alice, toId = bob\<rparr>"

definition race_like2 :: like_row where
  "race_like2 = \<lparr>like_id = 1, fromId = bob, toId = alice\<rparr>"

definition race_match1 :: match_row where
  "race_match1 = \<lparr>match_id = 2, userAId = alice, userBId = bob, active = True\<rparr>"

definition race_match2 :: match_row where
  "race_match2 = \<lparr>match_id = 3, userAId = bob, userBId = alice, active = True\<rparr>"

definition race_db1 :: db where
  "race_db1 = fresh_db\<lparr>likes := [race_like1], nextId := 1\<rparr>"

definition race_db2 :: db where
  "race_db2 = fresh_db\<lparr>likes := [race_like1, race_like2], nextId := 2\<rparr>"

definition race_db3 :: db where
  "race_db3 = race_db2\<lparr>matches := [race_match1], nextId := 3\<rparr>"

definition race_db4 :: db where
  "race_db4 = race_db2\<lparr>matches := [race_match1, race_match2], nextId := 4\<rparr>"

text \<open>The profiles of the scoring example of the specification; the candidate has no bio.\<close>

definition viewer_sf :: user_row where
  "viewer_sf = \<lparr>userId = alice, headline = Some ''Engineer'', bio = Some ''Builds backends'',
     location = Some ''SF'', availability = Some 80,
     offers = [''Backend Development''], lookingFor = [''Marketing''],
     skills = [''React'', ''Node.js'']\<rparr>"

definition candidate_sf :: user_row where
  "candidate_sf = \<lparr>userId = bob, headline = Some ''Marketer'', bio = None,
     location = Some ''SF'', availability = Some 85,
     offers = [''Marketing''], lookingFor = [''Backend Development''],
     skills = [''React'']\<rparr>"

text \<open>Two complete profiles that agree on everything.\<close>

definition full_viewer :: user_row where
  "full_viewer = \<lparr>userId = alice, headline = Some ''CTO'', bio = Some ''Bio'',
     location = Some ''Berlin'', availability = Some 50,
     offers = [''o1'', ''o2'', ''o3''], lookingFor = [''l1'', ''l2''],
     skills = [''s1'', ''s2'', ''s3'', ''s4'', ''s5'']\<rparr>"

definition full_candidate :: user_row where
  "full_candidate = \<lparr>userId = bob, headline = Some ''CEO'', bio = Some ''Bio'',
     location = Some ''Berlin'', availability = Some 50,
     offers = [''l1'', ''l2''], lookingFor = [''o1'', ''o2'', ''o3''],
     skills = [''s1'', ''s2'', ''s3'', ''s4'', ''s5'']\<rparr>"

text \<open>A viewer who looks for what the candidate offers, and offers nothing.\<close>

definition seeker :: user_row where
  "seeker = (profile alice)\<lparr>lookingFor := [''Marketing'']\<rparr>"

definition marketer :: user_row where
  "marketer = (profile bob)\<lparr>offers := [''Marketing'']\<rparr>"

text \<open>Two users who have set their availability to 0 per cent, and one at 20 per cent.\<close>

definition idle_viewer :: user_row where
  "idle_viewer = (profile alice)\<lparr>availability := Some 0\<rparr>"

definition idle_candidate :: user_row where
  "idle_candidate = (profile bob)\<lparr>availability := Some 0\<rparr>"

definition part_time_candidate :: user_row where
  "part_time_candidate = (profile carol)\<lparr>availability := Some 20\<rparr>"

definition likedUserIds :: "db \<Rightarrow> uid \<Rightarrow> uid list" where
  "likedUserIds d viewer = map toId (filter (\<lambda>like. fromId like = viewer) (likes d))"

section \<open>Properties\<close>

subsection \<open>The calls of the like handler\<close>

lemma like_create_Inr:
  assumes "like_findUnique d f t = None" "user_findUnique d f \<noteq> None"
    "user_findUnique d t \<noteq> None"
  shows "like_create d f t None = Inr (new_like d f t, with_like d (new_like d f t))"
  using assms by (simp add: like_create_def Let_def new_like_def with_like_def)

lemma match_create_Inr:
  assumes "\<not> stored_as d a b" "user_findUnique d a \<noteq> None" "user_findUnique d b \<noteq> None"
  shows "match_create d a b = Inr (new_match d a b, with_match d (new_match d a b))"
  using assms
  by (auto simp: match_create_def Let_def new_match_def with_match_def stored_as_def
      find_None_iff)

lemma match_create_Inl:
  "match_create d a b = Inl UniqueConstraintViolation \<longleftrightarrow> stored_as d a b"
  by (auto simp: match_create_def Let_def stored_as_def find_None_iff)

lemma with_like_simps:
  "users (with_like d l) = users d" "matches (with_like d l) = matches d"
  "likes (with_like d l) = likes d @ [l]" "nextId (with_like d l) = Suc (nextId d)"
  "user_findUnique (with_like d l) u = user_findUnique d u"
  "stored_as (with_like d l) a b = stored_as d a b"
  by (simp_all add: with_like_def user_findUnique_def stored_as_def)

lemma with_match_simps:
  "users (with_match d m) = users d" "matches (with_match d m) = matches d @ [m]"
  "likes (with_match d m) = likes d" "nextId (with_match d m) = Suc (nextId d)"
  "user_findUnique (with_match d m) u = user_findUnique d u"
  "like_findUnique (with_match d m) a b = like_findUnique d a b"
  by (simp_all add: with_match_def user_findUnique_def like_findUnique_def)

lemma find_snoc:
  "find P (xs @ [x]) = (case find P xs of Some y \<Rightarrow> Some y | None \<Rightarrow> if P x then Some x else None)"
  by (induction xs) auto

lemma like_findUnique_with_like:
  "like_findUnique (with_like d l) a b =
     (case like_findUnique d a b of
        Some x \<Rightarrow> Some x
      | None \<Rightarrow> if fromId l = a \<and> toId l = b then Some l else None)"
  by (simp add: like_findUnique_def with_like_def find_snoc)

lemma POST_like_no_mutual:
  assumes "a \<noteq> b" "user_findUnique d a \<noteq> None" "user_findUnique d b \<noteq> None"
    "like_findUnique d a b = None" "like_findUnique d b a = None"
  shows "POST_like d (Some a) (Some (b, None)) =
           (Json (like_sent (new_like d a b)), with_like d (new_like d a b))"
proof -
  have "like_findUnique (with_like d (new_like d a b)) b a = None"
    using assms(1,5) by (simp add: like_findUnique_with_like new_like_def)
  with assms show ?thesis
    by (auto simp: POST_like_def like_create_Inr like_sent_def split: option.splits)
qed

lemma POST_like_mutual:
  assumes "a \<noteq> b" "user_findUnique d a \<noteq> None" "user_findUnique d b \<noteq> None"
    "like_findUnique d a b = None" "like_findUnique d b a \<noteq> None"
  shows "POST_like d (Some a) (Some (b, None)) =
           (if stored_as d a b
            then (internal_error, with_like d (new_like d a b))
            else (Json (its_a_match (new_like d a b)
                          (new_match (with_like d (new_like d a b)) a b)),
                  with_match (with_like d (new_like d a b))
                    (new_match (with_like d (new_like d a b)) a b)))"
proof -
  let ?d1 = "with_like d (new_like d a b)"
  have m: "like_findUnique ?d1 b a \<noteq> None"
    using assms(5) by (auto simp: like_findUnique_with_like split: option.splits)
  show ?thesis
  proof (cases "stored_as d a b")
    case True
    then have "match_create ?d1 a b = Inl UniqueConstraintViolation"
      by (simp add: match_create_Inl with_like_simps)
    with assms m True show ?thesis
      by (auto simp: POST_like_def like_create_Inr split: option.splits)
  next
    case False
    then have "match_create ?d1 a b = Inr (new_match ?d1 a b, with_match ?d1 (new_match ?d1 a b))"
      using assms(2,3) by (simp add: match_create_Inr with_like_simps)
    with assms m False show ?thesis
      by (auto simp: POST_like_def like_create_Inr its_a_match_def split: option.splits)
  qed
qed

text \<open>
  A like that carries a message: \<open>like.create\<close> throws, the answer is 500 and nothing is
  stored. The properties of the like handler below are about calls without a message.
\<close>

lemma POST_like_with_message:
  assumes "a \<noteq> b" "user_findUnique d b \<noteq> None" "like_findUnique d a b = None"
  shows "POST_like d (Some a) (Some (b, Some t)) = (internal_error, d)"
  using assms
  by (auto simp: POST_like_def like_create_def split: option.splits)

lemma POST_like_users: "users (snd (POST_like d auth parsed)) = users d"
  by (auto simp: POST_like_def like_create_def match_create_def Let_def
      split: option.splits sum.splits if_splits)

lemmas example_defs =
  alice_def bob_def carol_def profile_def fresh_db_def reversed_db_def matched_db_def
  race_like1_def race_like2_def race_match1_def race_match2_def
  race_db1_def race_db2_def race_db3_def race_db4_def

lemmas call_defs =
  user_findUnique_def like_findUnique_def like_create_def match_create_def
  match_findFirst_def message_findMany_def message_create_def Let_def internal_error_def

text \<open>
  Claim C1, as stated, fails. In \<open>reversed_db\<close> Bob has an interest toward Alice, an active
  match of the two is stored as (Bob, Alice), and Alice has no interest toward Bob. Alice's
  \<open>POST /api/like\<close> toward Bob answers with a new match row (id 3), not the stored one
  (id 1), and afterwards two active match rows are stored for the pair.
\<close>

theorem expressInterest_duplicates_reversed_match:
  "like_findUnique reversed_db bob alice \<noteq> None
   \<and> like_findUnique reversed_db alice bob = None
   \<and> active_matches reversed_db alice bob
       = [\<lparr>match_id = 1, userAId = bob, userBId = alice, active = True\<rparr>]
   \<and> fst (POST_like reversed_db (Some alice) (Some (bob, None)))
       = Json \<lparr>r_like = \<lparr>like_id = 2, fromId = alice, toId = bob\<rparr>,
               r_match = Some \<lparr>match_id = 3, userAId = alice, userBId = bob, active = True\<rparr>,
               isMatch = True, r_message = ''It's a match!''\<rparr>
   \<and> active_matches (snd (POST_like reversed_db (Some alice) (Some (bob, None)))) alice bob
       = [\<lparr>match_id = 1, userAId = bob, userBId = alice, active = True\<rparr>,
          \<lparr>match_id = 3, userAId = alice, userBId = bob, active = True\<rparr>]"
  by (simp add: POST_like_def call_defs example_defs active_matches_def pair_match_def)


text \<open>
  Claim C1, amended. In every state in which \<open>y\<close> has an interest toward \<open>x\<close>, an active
  match of the pair is stored in either order and \<open>x\<close> has no interest toward \<open>y\<close>,
  the call of \<open>x\<close> toward \<open>y\<close>, without a message, looks for no stored match. It stores the interest and
  inserts a match row \<open>(x, y)\<close>. If a row is stored as \<open>(x, y)\<close>, the unique index rejects
  the insert: the answer is 500 and the match table is unchanged. Otherwise (the match is
  stored as \<open>(y, x)\<close> only) the insert succeeds: the answer carries the new row with
  \<open>isMatch = true\<close>, and the pair has one more active match row than before.
\<close>

theorem expressInterest_existing_match:
  assumes "x \<noteq> y"
    and "user_findUnique d x \<noteq> None" and "user_findUnique d y \<noteq> None"
    and "like_findUnique d y x \<noteq> None" and "like_findUnique d x y = None"
    and "active_matches d x y \<noteq> []"
  shows "likes (snd (POST_like d (Some x) (Some (y, None)))) = likes d @ [new_like d x y]
    \<and> (if stored_as d x y
        then fst (POST_like d (Some x) (Some (y, None))) = internal_error
           \<and> matches (snd (POST_like d (Some x) (Some (y, None)))) = matches d
        else fst (POST_like d (Some x) (Some (y, None)))
               = Json (its_a_match (new_like d x y)
                   \<lparr>match_id = Suc (nextId d), userAId = x, userBId = y, active = True\<rparr>)
           \<and> matches (snd (POST_like d (Some x) (Some (y, None))))
               = matches d @ [\<lparr>match_id = Suc (nextId d), userAId = x, userBId = y,
                                active = True\<rparr>]
           \<and> length (active_matches (snd (POST_like d (Some x) (Some (y, None)))) x y)
               = Suc (length (active_matches d x y)))"
  using POST_like_mutual[OF assms(1,2,3,5,4)]
  by (simp add: with_like_simps with_match_simps new_match_def active_matches_def
      pair_match_def)

text \<open>The amended claim C1 at \<open>reversed_db\<close>, where the match is stored as (Bob, Alice).\<close>

theorem expressInterest_existing_match_witness:
  "alice \<noteq> bob \<and> active_matches reversed_db alice bob \<noteq> [] \<and> \<not> stored_as reversed_db alice bob
   \<and> length (active_matches (snd (POST_like reversed_db (Some alice) (Some (bob, None))))
        alice bob) = 2"
  using expressInterest_existing_match[of alice bob reversed_db]
  by (simp add: call_defs example_defs active_matches_def pair_match_def stored_as_def)


lemma POST_like_likes_unique:
  assumes "likes_unique d"
  shows "likes_unique (snd (POST_like d auth parsed))"
  using assms
  by (auto simp: POST_like_def like_create_def match_create_def Let_def likes_unique_def
      like_findUnique_def find_None_iff split: option.splits sum.splits if_splits)

lemma POST_like_matches_fk:
  assumes "matches_fk d"
  shows "matches_fk (snd (POST_like d auth parsed))"
  using assms
  by (auto simp: POST_like_def like_create_def match_create_def Let_def matches_fk_def
      user_findUnique_def split: option.splits sum.splits if_splits)

lemma POST_like_split:
  "POST_like d auth parsed =
     (case POST_like_create d auth parsed of
        (Inl r, d') \<Rightarrow> (r, d')
      | (Inr like, d1) \<Rightarrow> POST_like_match d1 (fromId like) (toId like) like)"
  by (auto simp: POST_like_def POST_like_create_def POST_like_match_def like_create_def Let_def
      split: option.splits sum.splits prod.splits if_splits)

text \<open>
  Claim C2, as stated, fails. Alice's and Bob's requests race: both run up to their
  \<open>like.create\<close> before either looks for the mutual like. Both then find it, and both
  inserts succeed, since the unique index compares the ordered pair: two match rows are
  stored for the pair. The storage layer accepts (Bob, Alice) while (Alice, Bob) is
  stored, and an insert that does violate the index ends the request with 500.
\<close>

theorem racing_likes_two_matches:
  "POST_like_create fresh_db (Some alice) (Some (bob, None)) = (Inr race_like1, race_db1)
   \<and> POST_like_create race_db1 (Some bob) (Some (alice, None)) = (Inr race_like2, race_db2)
   \<and> POST_like_match race_db2 alice bob race_like1
       = (Json (its_a_match race_like1 race_match1), race_db3)
   \<and> POST_like_match race_db3 bob alice race_like2
       = (Json (its_a_match race_like2 race_match2), race_db4)
   \<and> filter (pair_match alice bob) (matches race_db4) = [race_match1, race_match2]
   \<and> match_create race_db3 bob alice = Inr (race_match2, race_db4)
   \<and> POST_like_match race_db3 alice bob race_like1
       = (Error 500 ''Internal server error'', race_db3)"
  by (simp add: POST_like_create_def POST_like_match_def call_defs example_defs
      its_a_match_def pair_match_def)

lemma match_create_unique:
  assumes "match_create d a b = Inr (m, d')" "matches_unique d"
  shows "matches_unique d'"
  using assms
  by (auto simp: match_create_def matches_unique_def Let_def find_None_iff
      split: if_splits)

lemma like_create_matches:
  "like_create d f t msg = Inr (l, d') \<Longrightarrow> matches d' = matches d"
  by (auto simp: like_create_def Let_def split: if_splits)

lemma POST_like_create_matches: "matches (snd (POST_like_create d auth parsed)) = matches d"
  by (auto simp: POST_like_create_def dest: like_create_matches
      split: option.splits sum.splits)

lemma POST_like_match_unique:
  "matches_unique d \<Longrightarrow> matches_unique (snd (POST_like_match d user toUserId like))"
  by (auto simp: POST_like_match_def dest: match_create_unique
      split: option.splits sum.splits)

lemma POST_like_unique:
  assumes "matches_unique d"
  shows "matches_unique (snd (POST_like d auth parsed))"
proof (cases "POST_like_create d auth parsed")
  case (Pair r d1)
  then have "matches d1 = matches d"
    using POST_like_create_matches[of d auth parsed] by simp
  with assms have u: "matches_unique d1" by (simp add: matches_unique_def)
  show ?thesis
  proof (cases r)
    case (Inl e)
    with Pair u show ?thesis by (simp add: POST_like_split)
  next
    case (Inr l)
    with Pair POST_like_match_unique[OF u] show ?thesis by (simp add: POST_like_split)
  qed
qed

text \<open>
  Claim C2, amended. The storage layer enforces uniqueness of the ordered pair
  \<open>(userAId, userBId)\<close>: \<open>match.create\<close> is rejected exactly when a row with the same
  two columns in the same order is stored, and the handler, whole or in its two round
  trips, never stores two rows with the same ordered pair. The creation path does not
  treat the violation as already matched: the request ends with 500.
\<close>

theorem match_uniqueness_ordered_pair:
  assumes "matches_unique d"
  shows "matches_unique (snd (POST_like d auth parsed))
    \<and> matches_unique (snd (POST_like_create d auth parsed))
    \<and> matches_unique (snd (POST_like_match d user toUserId like))
    \<and> (match_create d a b = Inl UniqueConstraintViolation \<longleftrightarrow> stored_as d a b)
    \<and> (stored_as d user toUserId \<and> like_findUnique d toUserId user \<noteq> None
         \<longrightarrow> POST_like_match d user toUserId like = (internal_error, d))"
proof -
  have "matches_unique (snd (POST_like_create d auth parsed))"
    using assms POST_like_create_matches[of d auth parsed] by (simp add: matches_unique_def)
  moreover have "stored_as d user toUserId \<and> like_findUnique d toUserId user \<noteq> None
         \<longrightarrow> POST_like_match d user toUserId like = (internal_error, d)"
    using match_create_Inl[of d user toUserId]
    by (auto simp: POST_like_match_def split: option.splits)
  ultimately show ?thesis
    using POST_like_unique[OF assms] POST_like_match_unique[OF assms] match_create_Inl
    by simp
qed

text \<open>The amended claim C2 at \<open>race_db3\<close>, where the match (Alice, Bob) is stored.\<close>

theorem match_uniqueness_ordered_pair_witness:
  "matches_unique race_db3 \<and> stored_as race_db3 alice bob
   \<and> match_create race_db3 alice bob = Inl UniqueConstraintViolation
   \<and> POST_like_match race_db3 alice bob race_like1 = (Error 500 ''Internal server error'', race_db3)
   \<and> matches_unique (snd (POST_like_match race_db3 bob alice race_like2))"
  using match_uniqueness_ordered_pair[of race_db3 None None alice bob race_like1 alice bob]
    match_uniqueness_ordered_pair[of race_db3 None None bob alice race_like2 alice bob]
  by (simp add: call_defs example_defs matches_unique_def stored_as_def)

text \<open>
  Claim C3. For distinct existing users \<open>a\<close> and \<open>b\<close> with no interest and no match
  between them, the call of \<open>a\<close> toward \<open>b\<close> followed by the call of \<open>b\<close> toward \<open>a\<close>,
  both without a message, answers \<open>isMatch = false\<close> without a match first and \<open>isMatch = true\<close> with the match
  second, and afterwards that match is the only match row of the pair, and it is active.
\<close>

theorem mutual_interest_closure:
  assumes "a \<noteq> b"
    and "user_findUnique d a \<noteq> None" and "user_findUnique d b \<noteq> None"
    and "like_findUnique d a b = None" and "like_findUnique d b a = None"
    and "filter (pair_match a b) (matches d) = []"
  shows "\<exists>j1 d1 j2 d2 m.
      POST_like d (Some a) (Some (b, None)) = (Json j1, d1) \<and> \<not> isMatch j1 \<and> r_match j1 = None
    \<and> POST_like d1 (Some b) (Some (a, None)) = (Json j2, d2) \<and> isMatch j2 \<and> r_match j2 = Some m
    \<and> filter (pair_match a b) (matches d2) = [m] \<and> active_matches d2 a b = [m]"
proof -
  let ?l1 = "new_like d a b"
  let ?d1 = "with_like d ?l1"
  let ?l2 = "new_like ?d1 b a"
  let ?m = "new_match (with_like ?d1 ?l2) b a"
  let ?d2 = "with_match (with_like ?d1 ?l2) ?m"
  have nostore: "\<not> stored_as d b a"
    using assms(6) by (auto simp: stored_as_def filter_empty_conv pair_match_def)
  have first: "POST_like d (Some a) (Some (b, None)) = (Json (like_sent ?l1), ?d1)"
    using POST_like_no_mutual[OF assms(1-5)] .
  have ba: "like_findUnique ?d1 b a = None"
    using assms(1,5) by (simp add: like_findUnique_with_like new_like_def)
  have ab: "like_findUnique ?d1 a b \<noteq> None"
    using assms(4) by (simp add: like_findUnique_with_like new_like_def)
  have second: "POST_like ?d1 (Some b) (Some (a, None)) = (Json (its_a_match ?l2 ?m), ?d2)"
    using POST_like_mutual[of b a ?d1] assms(1-3) ba ab nostore
    by (simp add: with_like_simps)
  have ms: "matches ?d2 = matches d @ [?m]"
    by (simp add: with_like_simps with_match_simps)
  have pm: "pair_match a b ?m" "active ?m"
    by (simp_all add: new_match_def pair_match_def)
  have f1: "filter (pair_match a b) (matches ?d2) = [?m]"
    using assms(6) pm by (simp add: ms)
  have "filter (\<lambda>m. active m \<and> pair_match a b m) (matches d) = []"
    using assms(6) by (auto simp: filter_empty_conv)
  then have f2: "active_matches ?d2 a b = [?m]"
    using pm by (simp add: active_matches_def ms)
  show ?thesis
    using first second f1 f2 by (auto simp: like_sent_def its_a_match_def)
qed

text \<open>Claim C3 at \<open>fresh_db\<close> for Alice and Bob.\<close>

theorem mutual_interest_closure_witness:
  "alice \<noteq> bob \<and> filter (pair_match alice bob) (matches fresh_db) = []
   \<and> (\<exists>j1 d1 j2 d2 m.
        POST_like fresh_db (Some alice) (Some (bob, None)) = (Json j1, d1) \<and> \<not> isMatch j1
      \<and> POST_like d1 (Some bob) (Some (alice, None)) = (Json j2, d2) \<and> isMatch j2
      \<and> active_matches d2 alice bob = [m])"
proof -
  have h: "alice \<noteq> bob" "user_findUnique fresh_db alice \<noteq> None"
    "user_findUnique fresh_db bob \<noteq> None" "like_findUnique fresh_db alice bob = None"
    "like_findUnique fresh_db bob alice = None"
    "filter (pair_match alice bob) (matches fresh_db) = []"
    by (simp_all add: call_defs example_defs)
  from mutual_interest_closure[OF h] h(1,6) show ?thesis by blast
qed


lemma like_findUnique_None: "like_findUnique d a b = None \<longleftrightarrow> edges d a b = []"
  by (auto simp: like_findUnique_def edges_def find_None_iff filter_empty_conv)

lemma distinct_key_filter:
  "distinct (map f xs) \<Longrightarrow> x \<in> set xs \<Longrightarrow> filter (\<lambda>y. f y = f x) xs = [x]"
proof (induction xs)
  case Nil
  then show ?case by simp
next
  case (Cons y ys)
  show ?case
  proof (cases "x = y")
    case True
    have "filter (\<lambda>z. f z = f y) ys = []"
      using Cons.prems(1) by (auto simp: filter_empty_conv intro: rev_image_eqI)
    with True show ?thesis by simp
  next
    case False
    with Cons.prems have "x \<in> set ys" "f y \<noteq> f x" by auto
    with Cons show ?thesis by simp
  qed
qed

lemma edges_unique:
  assumes "likes_unique d" "like_findUnique d a b \<noteq> None"
  shows "length (edges d a b) = 1"
proof -
  from assms(2) obtain l where l: "l \<in> set (likes d)" "fromId l = a" "toId l = b"
    by (auto simp: like_findUnique_def find_None_iff)
  have "filter (\<lambda>y. (fromId y, toId y) = (fromId l, toId l)) (likes d) = [l]"
    using distinct_key_filter[of "\<lambda>l. (fromId l, toId l)" "likes d" l] assms(1) l(1)
    by (simp add: likes_unique_def)
  then show ?thesis using l by (simp add: edges_def)
qed

lemma POST_like_likes:
  assumes "a \<noteq> b" "user_findUnique d a \<noteq> None" "user_findUnique d b \<noteq> None"
    "like_findUnique d a b = None"
  shows "likes (snd (POST_like d (Some a) (Some (b, None)))) = likes d @ [new_like d a b]"
proof (cases "like_findUnique d b a")
  case None
  then show ?thesis
    using POST_like_no_mutual[OF assms None] by (simp add: with_like_simps)
next
  case (Some l)
  then have "like_findUnique d b a \<noteq> None" by simp
  from POST_like_mutual[OF assms this] show ?thesis
    by (simp add: with_like_simps with_match_simps)
qed

text \<open>
  Claim C4. For distinct existing users \<open>a\<close> and \<open>b\<close>, in a store that respects the unique
  index of the likes, after a call of \<open>a\<close> toward \<open>b\<close> without a message, a second
  call of \<open>a\<close> toward \<open>b\<close>, with or without a message, answers 400 \<open>Already liked
  this user\<close> and leaves the store as the first call left it, with exactly one interest
  from \<open>a\<close> to \<open>b\<close>.
\<close>

theorem idempotent_interest:
  assumes "a \<noteq> b" and "user_findUnique d a \<noteq> None" and "user_findUnique d b \<noteq> None"
    and "likes_unique d"
  shows "POST_like (snd (POST_like d (Some a) (Some (b, None)))) (Some a) (Some (b, msg2)) =
           (Error 400 ''Already liked this user'', snd (POST_like d (Some a) (Some (b, None))))
         \<and> length (edges (snd (POST_like d (Some a) (Some (b, None)))) a b) = 1"
proof -
  let ?d1 = "snd (POST_like d (Some a) (Some (b, None)))"
  have one: "length (edges ?d1 a b) = 1"
  proof (cases "like_findUnique d a b")
    case None
    then have "edges d a b = []" by (simp add: like_findUnique_None)
    moreover have "likes ?d1 = likes d @ [new_like d a b]"
      using POST_like_likes[OF assms(1-3) None] .
    ultimately show ?thesis by (simp add: edges_def new_like_def)
  next
    case (Some l)
    with assms(1,3) have "?d1 = d"
      by (auto simp: POST_like_def split: option.splits)
    moreover have "length (edges d a b) = 1"
      using edges_unique[OF assms(4)] Some by simp
    ultimately show ?thesis by simp
  qed
  then have "edges ?d1 a b \<noteq> []" by auto
  then have ex: "like_findUnique ?d1 a b \<noteq> None" by (simp add: like_findUnique_None)
  have "user_findUnique ?d1 b \<noteq> None"
    using assms(3) POST_like_users[of d "Some a" "Some (b, None)"]
    by (simp add: user_findUnique_def)
  with ex assms(1)
  have "POST_like ?d1 (Some a) (Some (b, msg2)) = (Error 400 ''Already liked this user'', ?d1)"
    by (auto simp: POST_like_def split: option.splits)
  with one show ?thesis by simp
qed

text \<open>Claim C4 at \<open>fresh_db\<close> for Alice and Bob.\<close>

theorem idempotent_interest_witness:
  "alice \<noteq> bob \<and> likes_unique fresh_db
   \<and> fst (POST_like (snd (POST_like fresh_db (Some alice) (Some (bob, None))))
        (Some alice) (Some (bob, Some ''again''))) = Error 400 ''Already liked this user''
   \<and> length (edges (snd (POST_like fresh_db (Some alice) (Some (bob, None)))) alice bob) = 1"
proof -
  have h: "alice \<noteq> bob" "user_findUnique fresh_db alice \<noteq> None"
    "user_findUnique fresh_db bob \<noteq> None" "likes_unique fresh_db"
    by (simp_all add: call_defs example_defs likes_unique_def)
  from idempotent_interest[OF h, of "Some ''again''"] h(1,4) show ?thesis by simp
qed

lemma match_findFirst_None: "match_findFirst d i u = None \<longleftrightarrow> \<not> canAccess d u i"
  by (auto simp: match_findFirst_def canAccess_def find_None_iff)

lemma message_create_Inr:
  assumes "matches_fk d" "canAccess d u i"
  shows "message_create d i u b =
    Inr (\<lparr>message_id = nextId d, matchId = i, senderId = u, body = b, createdAt = clock d\<rparr>,
         d\<lparr>messages := messages d @
              [\<lparr>message_id = nextId d, matchId = i, senderId = u, body = b,
                createdAt = clock d\<rparr>],
           nextId := Suc (nextId d)\<rparr>)"
  using assms
  by (auto simp: message_create_def matches_fk_def canAccess_def find_None_iff Let_def)

lemma POST_messages_rejected:
  "\<not> canAccess d u i \<or> \<not> messageSchema b \<Longrightarrow> snd (POST_messages d (Some u) i b) = d"
  using match_findFirst_None[of d i u]
  by (auto simp: POST_messages_def split: option.splits sum.splits)

text \<open>
  Claim C5. For every user \<open>u\<close> and match id \<open>i\<close>, and every body that \<open>messageSchema\<close>
  accepts, \<open>GET\<close> and \<open>POST\<close> of the messages succeed exactly when \<open>canAccess\<close> holds:
  an active match with that id has \<open>u\<close> in one of its two columns. When it holds, \<open>GET\<close>
  returns the messages of the match and \<open>POST\<close> appends the message with \<open>u\<close> as sender.
  When it does not, both answer 404 \<open>Match not found\<close> and the store is unchanged. The
  store respects the foreign keys of the match table.
\<close>

theorem conversation_gate:
  assumes "matches_fk d" and "messageSchema b"
  shows "((\<exists>ms. GET_messages d (Some u) i = Json ms) \<longleftrightarrow> canAccess d u i)
    \<and> ((\<exists>m. fst (POST_messages d (Some u) i b) = Json m) \<longleftrightarrow> canAccess d u i)
    \<and> (canAccess d u i \<longrightarrow>
         GET_messages d (Some u) i = Json (message_findMany d i)
       \<and> messages (snd (POST_messages d (Some u) i b)) =
           messages d @ [\<lparr>message_id = nextId d, matchId = i, senderId = u, body = b,
                           createdAt = clock d\<rparr>])
    \<and> (\<not> canAccess d u i \<longrightarrow>
         GET_messages d (Some u) i = Error 404 ''Match not found''
       \<and> POST_messages d (Some u) i b = (Error 404 ''Match not found'', d))"
proof (cases "canAccess d u i")
  case True
  then obtain m where m: "match_findFirst d i u = Some m"
    using match_findFirst_None[of d i u] by auto
  have "GET_messages d (Some u) i = Json (message_findMany d i)"
    using m by (simp add: GET_messages_def)
  moreover have "POST_messages d (Some u) i b =
      (Json \<lparr>message_id = nextId d, matchId = i, senderId = u, body = b, createdAt = clock d\<rparr>,
       d\<lparr>messages := messages d @
            [\<lparr>message_id = nextId d, matchId = i, senderId = u, body = b,
              createdAt = clock d\<rparr>],
          nextId := Suc (nextId d),
          realtime := realtime d @
            [\<lparr>message_id = nextId d, matchId = i, senderId = u, body = b,
              createdAt = clock d\<rparr>]\<rparr>)"
    using m assms(2) message_create_Inr[OF assms(1) True, of b]
    by (simp add: POST_messages_def)
  ultimately show ?thesis using True by simp
next
  case False
  then have "match_findFirst d i u = None" by (simp add: match_findFirst_None)
  with False assms(2) show ?thesis
    by (simp add: GET_messages_def POST_messages_def)
qed

text \<open>Claim C5 at \<open>matched_db\<close>: Alice is a participant of match 2, Carol is not.\<close>

theorem conversation_gate_witness:
  "matches_fk matched_db \<and> messageSchema ''hello''
   \<and> canAccess matched_db alice 2 \<and> \<not> canAccess matched_db carol 2
   \<and> GET_messages matched_db (Some alice) 2 = Json []
   \<and> GET_messages matched_db (Some carol) 2 = Error 404 ''Match not found''
   \<and> POST_messages matched_db (Some carol) 2 ''hello'' = (Error 404 ''Match not found'', matched_db)
   \<and> messages (snd (POST_messages matched_db (Some alice) 2 ''hello'')) =
       [\<lparr>message_id = 3, matchId = 2, senderId = alice, body = ''hello'', createdAt = 0\<rparr>]"
proof -
  have h: "matches_fk matched_db" "messageSchema ''hello''"
    by (simp_all add: matches_fk_def messageSchema_def call_defs example_defs)
  have c: "canAccess matched_db alice 2" "\<not> canAccess matched_db carol 2"
    by (simp_all add: canAccess_def example_defs)
  from conversation_gate[OF h, of alice 2] conversation_gate[OF h, of carol 2] h c
  show ?thesis
    by (simp add: message_findMany_def matched_db_def fresh_db_def)
qed


lemmas profile_defs =
  viewer_sf_def candidate_sf_def full_viewer_def full_candidate_def seeker_def marketer_def
  idle_viewer_def idle_candidate_def part_time_candidate_def profile_def
  alice_def bob_def carol_def

lemmas term_defs =
  tagScore_def skillScore_def locationScore_def availabilityScore_def completenessScore_def
  offerOverlap_def lookingForOverlap_def skillOverlap_def user2Completeness_def
  truthy_def truthy_number_def

lemma calculateMatchScore_terms:
  "score (calculateMatchScore user1 user2) =
     Math_round (tagScore user1 user2 + skillScore user1 user2 + locationScore user1 user2
       + availabilityScore user1 user2 + completenessScore user2)"
  by (simp add: calculateMatchScore_def Let_def tagScore_def skillScore_def locationScore_def
      availabilityScore_def completenessScore_def offerOverlap_def lookingForOverlap_def
      skillOverlap_def user2Completeness_def split: prod.splits)

lemma user2Completeness_le: "user2Completeness u \<le> 6"
  unfolding user2Completeness_def
  by (rule order_trans[OF length_filter_le]) simp

lemma tagScore_bounds: "0 \<le> tagScore u1 u2 \<and> tagScore u1 u2 \<le> 40"
  by (simp add: tagScore_def)

lemma skillScore_bounds: "0 \<le> skillScore u1 u2 \<and> skillScore u1 u2 \<le> 20"
  by (simp add: skillScore_def)

lemma locationScore_bounds: "0 \<le> locationScore u1 u2 \<and> locationScore u1 u2 \<le> 10"
  by (simp add: locationScore_def)

lemma availabilityScore_bounds:
  "0 \<le> availabilityScore u1 u2 \<and> availabilityScore u1 u2 \<le> 10"
  by (simp add: availabilityScore_def)

lemma completenessScore_bounds: "0 \<le> completenessScore u \<and> completenessScore u \<le> 5"
  using user2Completeness_le[of u]
  by (simp add: completenessScore_def)

lemma Math_round_mono: "x \<le> y \<Longrightarrow> Math_round x \<le> Math_round y"
  by (simp add: Math_round_def floor_mono)

lemma Math_round_of_int: "Math_round (of_int n) = n"
  unfolding Math_round_def by linarith

lemma sum_bounds:
  "0 \<le> tagScore u1 u2 + skillScore u1 u2 + locationScore u1 u2 + availabilityScore u1 u2
         + completenessScore u2
   \<and> tagScore u1 u2 + skillScore u1 u2 + locationScore u1 u2 + availabilityScore u1 u2
         + completenessScore u2 \<le> 85"
  using tagScore_bounds[of u1 u2] skillScore_bounds[of u1 u2] locationScore_bounds[of u1 u2]
    availabilityScore_bounds[of u1 u2] completenessScore_bounds[of u2]
  by linarith

lemma score_bounds:
  "0 \<le> score (calculateMatchScore u1 u2) \<and> score (calculateMatchScore u1 u2) \<le> 85"
proof -
  let ?s = "tagScore u1 u2 + skillScore u1 u2 + locationScore u1 u2 + availabilityScore u1 u2
         + completenessScore u2"
  have "Math_round (of_int 0) \<le> Math_round ?s" "Math_round ?s \<le> Math_round (of_int 85)"
    using sum_bounds[of u1 u2] by (simp_all add: Math_round_mono)
  then show ?thesis
    unfolding Math_round_of_int calculateMatchScore_terms by simp
qed

text \<open>
  Claim C6. For every two profiles the score is between 0 and 100, it is the rounded sum
  of the five terms, and tag complementarity is at most 40, skill overlap at most 20,
  location at most 10, availability at most 10 and completeness at most 5.
\<close>

theorem scoring_boundedness:
  "0 \<le> score (calculateMatchScore user1 user2)
   \<and> score (calculateMatchScore user1 user2) \<le> 100
   \<and> tagScore user1 user2 \<le> 40
   \<and> skillScore user1 user2 \<le> 20
   \<and> locationScore user1 user2 \<le> 10
   \<and> availabilityScore user1 user2 \<le> 10
   \<and> completenessScore user2 \<le> 5
   \<and> score (calculateMatchScore user1 user2) =
       Math_round (tagScore user1 user2 + skillScore user1 user2
         + locationScore user1 user2 + availabilityScore user1 user2
         + completenessScore user2)"
  using score_bounds[of user1 user2] tagScore_bounds[of user1 user2]
    skillScore_bounds[of user1 user2] locationScore_bounds[of user1 user2]
    availabilityScore_bounds[of user1 user2] completenessScore_bounds[of user2]
    calculateMatchScore_terms[of user1 user2]
  by simp

text \<open>Claim C6 at the scoring example of the specification.\<close>

theorem scoring_boundedness_witness:
  "tagScore viewer_sf candidate_sf = 16 \<and> skillScore viewer_sf candidate_sf = 4
   \<and> locationScore viewer_sf candidate_sf = 10
   \<and> availabilityScore viewer_sf candidate_sf = 19 / 2
   \<and> completenessScore candidate_sf = 25 / 6
   \<and> score (calculateMatchScore viewer_sf candidate_sf) = 44
   \<and> score (calculateMatchScore viewer_sf candidate_sf) \<le> 100"
  using scoring_boundedness[of viewer_sf candidate_sf]
  by (simp add: term_defs profile_defs Math_round_def floor_eq_iff)

text \<open>
  Claim C10. For every two profiles the score is at most 85.
\<close>

theorem score_at_most_85:
  "score (calculateMatchScore user1 user2) \<le> 85"
  using score_bounds[of user1 user2] by simp

text \<open>Claim C10 at two complete profiles that agree on everything: the score is 85.\<close>

theorem score_at_most_85_witness:
  "score (calculateMatchScore full_viewer full_candidate) = 85
   \<and> score (calculateMatchScore full_viewer full_candidate) \<le> 85"
  using score_at_most_85[of full_viewer full_candidate]
  by (simp add: calculateMatchScore_terms term_defs profile_defs Math_round_def floor_eq_iff)


lemma availabilityScore_spec:
  assumes "availability user1 \<noteq> Some 0" and "availability user2 \<noteq> Some 0"
  shows "availabilityScore user1 user2 =
           spec_availabilityTerm (availability user1) (availability user2)"
  using assms
  by (auto simp: availabilityScore_def spec_availabilityTerm_def truthy_number_def
      split: option.splits)

text \<open>
  Claim C7 fails where an availability is 0. With both availabilities present and equal
  to 0 the code skips the term (0 is falsy) and contributes 0, where the formula of the
  specification gives 10; with 0 and 20 the code contributes 0, the formula gives 8.
\<close>

theorem availability_zero_skipped:
  "availability idle_viewer = Some 0 \<and> availability idle_candidate = Some 0
   \<and> availabilityScore idle_viewer idle_candidate = 0
   \<and> spec_availabilityTerm (availability idle_viewer) (availability idle_candidate) = 10
   \<and> availability part_time_candidate = Some 20
   \<and> availabilityScore idle_viewer part_time_candidate = 0
   \<and> spec_availabilityTerm (availability idle_viewer) (availability part_time_candidate) = 8
   \<and> score (calculateMatchScore idle_viewer idle_candidate) = 0"
  by (simp add: calculateMatchScore_terms term_defs profile_defs spec_availabilityTerm_def
      Math_round_def floor_eq_iff)

lemma skillScore_pos: "0 < skillScore user1 user2 \<longleftrightarrow> 0 < skillOverlap user1 user2"
  by (simp add: skillScore_def min_def)

lemma tagScore_pos:
  "0 < tagScore user1 user2 \<longleftrightarrow> 0 < offerOverlap user1 user2 \<or> 0 < lookingForOverlap user1 user2"
  by (auto simp: tagScore_def min_def)

text \<open>
  Claim C8, as stated, fails. The viewer looks for what the candidate offers and offers
  nothing: tag complementarity is 8, and the list of reasons is empty.
\<close>

theorem reasons_complementarity_missing:
  "tagScore seeker marketer = 8
   \<and> reasons (calculateMatchScore seeker marketer) = []"
  by (simp add: calculateMatchScore_def Let_def term_defs profile_defs)

lemma snoc_if: "(if c then xs @ [a] else xs) = xs @ (if c then [a] else [])"
  by simp

lemma reasons_location:
  "(if truthy l1 \<and> truthy l2
    then (if (if l1 = l2 then 10 else 5 :: rat) = 10 then [''Same location''] else [])
    else []) =
   (if (if truthy l1 \<and> truthy l2 then (if l1 = l2 then 10 else 5 :: rat) else 0) = 10
    then [''Same location''] else [])"
  by simp

lemma reasons_availability:
  "(if c then (if 7 < (x :: rat) then [''Similar availability''] else []) else []) =
   (if 7 < (if c then x else 0) then [''Similar availability''] else [])"
  by simp

text \<open>
  Claim C8, amended. The reasons are the first three, in the order of the terms, of: the
  complementarity reason exactly when \<open>offerOverlap\<close> is positive (an offer of the viewer
  is among what the candidate looks for), the skill reason exactly when skill overlap is
  positive, the location reason exactly when the location term is 10, the availability
  reason exactly when the availability term exceeds 7, the completeness reason exactly
  when the completeness term exceeds 4.
\<close>

theorem reasons_thresholds:
  "reasons (calculateMatchScore user1 user2) =
     take 3
       ((if 0 < offerOverlap user1 user2
         then [String_of (offerOverlap user1 user2) @ '' matching skills/offers''] else [])
      @ (if 0 < skillScore user1 user2
         then [String_of (skillOverlap user1 user2) @ '' shared skills''] else [])
      @ (if locationScore user1 user2 = 10 then [''Same location''] else [])
      @ (if 7 < availabilityScore user1 user2 then [''Similar availability''] else [])
      @ (if 4 < completenessScore user2 then [''Complete profile''] else []))"
proof -
  let ?A = "if 0 < offerOverlap user1 user2
         then [String_of (offerOverlap user1 user2) @ '' matching skills/offers''] else []"
  let ?B = "if 0 < skillOverlap user1 user2
         then [String_of (skillOverlap user1 user2) @ '' shared skills''] else []"
  let ?C = "if truthy (location user1) \<and> truthy (location user2)
    then (if (if location user1 = location user2 then 10 else 5 :: rat) = 10
          then [''Same location''] else [])
    else []"
  let ?D = "if truthy_number (availability user1) \<and> truthy_number (availability user2)
    then (if 7 < max 0 (10 - rat_of_int \<bar>the (availability user1) - the (availability user2)\<bar> / 10)
          then [''Similar availability''] else [])
    else []"
  let ?E = "if 4 < completenessScore user2 then [''Complete profile''] else []"
  have raw: "reasons (calculateMatchScore user1 user2) = take 3 (?A @ ?B @ ?C @ ?D @ ?E)"
  proof (cases "truthy (location user1) \<and> truthy (location user2)")
    case loc: True
    show ?thesis
    proof (cases "truthy_number (availability user1) \<and> truthy_number (availability user2)")
      case ava: True
      show ?thesis
        by (simp add: loc ava calculateMatchScore_def Let_def snoc_if completenessScore_def
            offerOverlap_def skillOverlap_def user2Completeness_def
            split del: if_split cong: if_cong)
    next
      case ava: False
      show ?thesis
        by (simp add: loc ava calculateMatchScore_def Let_def snoc_if completenessScore_def
            offerOverlap_def skillOverlap_def user2Completeness_def
            split del: if_split cong: if_cong)
    qed
  next
    case loc: False
    show ?thesis
    proof (cases "truthy_number (availability user1) \<and> truthy_number (availability user2)")
      case ava: True
      show ?thesis
        by (simp add: loc ava calculateMatchScore_def Let_def snoc_if completenessScore_def
            offerOverlap_def skillOverlap_def user2Completeness_def
            split del: if_split cong: if_cong)
    next
      case ava: False
      show ?thesis
        by (simp add: loc ava calculateMatchScore_def Let_def snoc_if completenessScore_def
            offerOverlap_def skillOverlap_def user2Completeness_def
            split del: if_split cong: if_cong)
    qed
  qed
  have C: "?C = (if locationScore user1 user2 = 10 then [''Same location''] else [])"
    unfolding locationScore_def by (rule reasons_location)
  have D: "?D = (if 7 < availabilityScore user1 user2 then [''Similar availability''] else [])"
    unfolding availabilityScore_def by (rule reasons_availability)
  show ?thesis
    unfolding raw C D skillScore_pos ..
qed

text \<open>The amended claim C8 at the scoring example: five reasons pass, three are kept.\<close>

theorem reasons_thresholds_witness:
  "reasons (calculateMatchScore viewer_sf candidate_sf) =
     [''1 matching skills/offers'', ''1 shared skills'', ''Same location'']
   \<and> 7 < availabilityScore viewer_sf candidate_sf
   \<and> 4 < completenessScore candidate_sf"
  using reasons_thresholds[of viewer_sf candidate_sf]
  by (simp add: term_defs profile_defs String_of.simps digit_def)

text \<open>
  Claim C9. Every candidate of the feed that \<open>GET /api/recommendations\<close> returns to a
  viewer has an id other than the viewer's and other than every id the viewer has liked.
\<close>

theorem feed_exclusion:
  assumes "GET_recommendations d (Some viewer) = Json feed"
  shows "\<forall>r \<in> set feed.
           userId (candidate r) \<noteq> viewer \<and> userId (candidate r) \<notin> set (likedUserIds d viewer)"
proof -
  from assms obtain currentUser where "user_findUnique d viewer = Some currentUser"
    by (auto simp: GET_recommendations_def split: option.splits)
  with assms have
    "candidate ` set feed \<subseteq>
       set (take 20 (filter (\<lambda>u. userId u \<noteq> viewer \<and> userId u \<notin> set (likedUserIds d viewer))
                      (users d)))"
    by (auto simp: GET_recommendations_def Let_def likedUserIds_def)
  then have "candidate ` set feed \<subseteq>
       {u. userId u \<noteq> viewer \<and> userId u \<notin> set (likedUserIds d viewer)}"
    using set_take_subset by fastforce
  then show ?thesis by auto
qed

text \<open>Claim C9 at \<open>race_db1\<close>: Alice has liked Bob, her feed is Carol alone.\<close>

theorem feed_exclusion_witness:
  "GET_recommendations race_db1 (Some alice) =
     Json [\<lparr>candidate = profile carol, matchScore = 0, matchReasons = []\<rparr>]
   \<and> likedUserIds race_db1 alice = [bob]
   \<and> userId (profile carol) \<noteq> alice \<and> userId (profile carol) \<noteq> bob"
proof -
  have g: "GET_recommendations race_db1 (Some alice) =
     Json [\<lparr>candidate = profile carol, matchScore = 0, matchReasons = []\<rparr>]"
    by (simp add: GET_recommendations_def calculateMatchScore_def Let_def call_defs
        example_defs truthy_def truthy_number_def Math_round_def floor_eq_iff)
  have l: "likedUserIds race_db1 alice = [bob]"
    by (simp add: likedUserIds_def example_defs)
  from feed_exclusion[OF g] g l show ?thesis by simp
qed

end
